theory Spec2Isabelle
  imports Main
begin

section \<open>Node's \<open>path.join\<close> on POSIX\<close>

text \<open>
  The token files are named by \<open>path.join(__dirname, `token-${name}.json`)\<close>.
  \<open>path.join\<close> concatenates its non-empty arguments with a slash and normalises the
  result: empty segments and \<open>.\<close> are dropped, \<open>..\<close> removes the segment before it.
  The model works on the list of segments; the stack of kept segments grows at its end.
\<close>

type_synonym path = string

fun splitSlash :: "string \<Rightarrow> string list" where
  "splitSlash [] = [[]]"
| "splitSlash (c # cs) =
     (if c = CHR ''/'' then [] # splitSlash cs
      else (case splitSlash cs of [] \<Rightarrow> [[c]] | s # ss \<Rightarrow> (c # s) # ss))"

definition normStep :: "bool \<Rightarrow> string list \<Rightarrow> string \<Rightarrow> string list" where
  "normStep allowAboveRoot st seg =
     (if seg = [] \<or> seg = ''.'' then st
      else if seg = ''..'' then
        (if st \<noteq> [] \<and> last st \<noteq> ''..'' then butlast st
         else if allowAboveRoot then st @ [''..'']
         else st)
      else st @ [seg])"

fun normalizeString :: "bool \<Rightarrow> string list \<Rightarrow> string list \<Rightarrow> string list" where
  "normalizeString allowAboveRoot st [] = st"
| "normalizeString allowAboveRoot st (seg # segs) =
     normalizeString allowAboveRoot (normStep allowAboveRoot st seg) segs"

fun joinSlash :: "string list \<Rightarrow> string" where
  "joinSlash [] = []"
| "joinSlash [s] = s"
| "joinSlash (s # t # ss) = s @ ''/'' @ joinSlash (t # ss)"

definition normalize :: "string \<Rightarrow> string" where
  "normalize p =
     (if p = [] then ''.''
      else
        let isAbsolute = (hd p = CHR ''/'');
            trailingSeparator = (last p = CHR ''/'');
            q = joinSlash (normalizeString (\<not> isAbsolute) [] (splitSlash p))
        in if q = [] then (if isAbsolute then ''/'' else if trailingSeparator then ''./'' else ''.'')
           else (if isAbsolute then ''/'' else []) @ q @ (if trailingSeparator then ''/'' else []))"

definition path_join :: "string list \<Rightarrow> string" where
  "path_join args =
     (let joined = joinSlash (filter (\<lambda>a. a \<noteq> []) args)
      in if joined = [] then ''.'' else normalize joined)"

section \<open>Data model\<close>

text \<open>
  The grant the provider returns and the token file holds: the fields of the library's
  \<open>Credentials\<close> object the program looks at or the spec names. A field that is
  \<open>undefined\<close> or \<open>null\<close> is \<open>None\<close>.
\<close>

record Credentials =
  access_token :: "string option"
  refresh_token :: "string option"
  token_type :: "string option"
  expiry_date :: "int option"

text \<open>
  \<open>credentials.json\<close>: the client registration, under the key \<open>web\<close> or \<open>installed\<close>.
\<close>

record ClientKeys =
  client_id :: string
  client_secret :: string
  redirect_uris :: "string list"

record Registration =
  web :: "ClientKeys option"
  installed :: "ClientKeys option"

record OAuth2Client =
  clientId :: string
  clientSecret :: string
  redirectUri :: "string option"
  credentials :: "Credentials option"

datatype error =
    ENOENT | EACCES | SyntaxError | TypeError | RangeError | ProviderError string

text \<open>
  A file is a text; \<open>JSON.parse\<close> either decodes it to a value or throws. The model
  identifies a JSON text with the value it decodes to (so \<open>JSON.stringify\<close> is
  \<open>Json\<close>), and keeps every other text literally. An entry of the file system that
  exists but cannot be read (permissions, a directory) is \<open>Unreadable\<close>; a path with
  no entry does not exist.
\<close>

datatype 'a file_text = Json 'a | NotJson string

datatype 'a entry = File "'a file_text" | Unreadable

fun JSON_parse :: "'a file_text \<Rightarrow> error + 'a" where
  "JSON_parse (Json v) = Inr v"
| "JSON_parse (NotJson s) = Inl SyntaxError"

definition readEntry :: "'a entry option \<Rightarrow> error + 'a file_text" where
  "readEntry en =
     (case en of
        None \<Rightarrow> Inl ENOENT
      | Some Unreadable \<Rightarrow> Inl EACCES
      | Some (File t) \<Rightarrow> Inr t)"

definition readFile :: "(path \<rightharpoonup> 'a entry) \<Rightarrow> path \<Rightarrow> error + 'a file_text" where
  "readFile fs p = readEntry (fs p)"

section \<open>Effects shared by all variants\<close>

text \<open>
  What a request can observe of the outside: reads and writes of files, the provider's
  token endpoint and the mailbox API. The handlers append to this log in the order the
  source performs the calls.
\<close>

datatype event =
    ReadFile path
  | WriteFile path
  | TokenExchange string
  | ListMessages
  | GetMessage string

text \<open>
  \<open>uuidv4()\<close> draws from a supply of identifiers that never repeats; \<open>next_uuid\<close>
  counts the draws, and the n-th draw is \<open>Uuid n\<close>.
\<close>

datatype uuid = Uuid nat

record io =
  log :: "event list"
  next_uuid :: nat

record header =
  h_name :: string
  h_value :: string

record message =
  msg_id :: string

text \<open>
  The record pushed for one message. \<open>server.js\<close> has no \<open>subject\<close> field
  (\<open>None\<close>); the per-user variants have it.
\<close>

record email =
  e_id :: uuid
  e_date :: string
  e_place :: string
  e_person :: string
  e_mail :: string
  e_QR_data :: string
  e_subject :: "string option"

text \<open>
  The mailbox API as seen through a client: \<open>users.messages.list\<close> (whose
  \<open>data.messages\<close> is \<open>undefined\<close> when nothing matches), \<open>users.messages.get\<close>
  (its \<open>data.payload.headers\<close>), and \<open>new Date(v).toISOString()\<close>, which throws a
  RangeError on a value that is not a date (\<open>None\<close>).
\<close>

record mailbox =
  messages_list :: "OAuth2Client \<Rightarrow> error + message list option"
  messages_get :: "OAuth2Client \<Rightarrow> string \<Rightarrow> error + header list"
  toISOString :: "string \<Rightarrow> string option"

section \<open>The mailbox query\<close>

text \<open>
  The subject and the date computed from the headers of one message. The date is
  \<open>None\<close> when \<open>toISOString\<close> throws.
\<close>

definition subjectOf :: "header list \<Rightarrow> string" where
  "subjectOf headers =
     (case find (\<lambda>h. h_name h = ''Subject'') headers of
        Some subjectHeader \<Rightarrow> h_value subjectHeader
      | None \<Rightarrow> ''No Subject'')"

definition dateOf :: "mailbox \<Rightarrow> header list \<Rightarrow> string option" where
  "dateOf G headers =
     (case find (\<lambda>h. h_name h = ''Date'') headers of
        None \<Rightarrow> Some ''Unknown Date''
      | Some dateHeader \<Rightarrow> toISOString G (h_value dateHeader))"

definition mailLink :: "message \<Rightarrow> string" where
  "mailLink m = ''https://mail.google.com/mail/u/0/#inbox/'' @ msg_id m"

text \<open>
  The body of the inner \<open>try\<close> for one message: \<open>None\<close> when the \<open>catch\<close> is
  taken (the fetch failed, or the date did not parse), and then nothing is pushed and no
  identifier has been drawn.
\<close>

definition fetchOne ::
  "mailbox \<Rightarrow> bool \<Rightarrow> OAuth2Client \<Rightarrow> string \<Rightarrow> message \<Rightarrow> 'a io_scheme
     \<Rightarrow> email option \<times> 'a io_scheme" where
  "fetchOne G withSubject auth userName m st =
     (let st1 = st\<lparr>log := log st @ [GetMessage (msg_id m)]\<rparr>
      in case messages_get G auth (msg_id m) of
           Inl err \<Rightarrow> (None, st1)
         | Inr headers \<Rightarrow>
             let subject = subjectOf headers
             in (case dateOf G headers of
                   None \<Rightarrow> (None, st1)
                 | Some date \<Rightarrow>
                     (Some \<lparr> e_id = Uuid (next_uuid st1),
                             e_date = date,
                             e_place = ''shibuya-OOOO'',
                             e_person = userName,
                             e_mail = mailLink m,
                             e_QR_data = ''abcdefghijk0123456'',
                             e_subject = (if withSubject then Some subject else None) \<rparr>,
                      st1\<lparr>next_uuid := Suc (next_uuid st1)\<rparr>)))"

fun fetchAll ::
  "mailbox \<Rightarrow> bool \<Rightarrow> OAuth2Client \<Rightarrow> string \<Rightarrow> message list \<Rightarrow> email list \<Rightarrow> 'a io_scheme
     \<Rightarrow> email list \<times> 'a io_scheme" where
  "fetchAll G withSubject auth userName [] emailData st = (emailData, st)"
| "fetchAll G withSubject auth userName (m # ms) emailData st =
     (case fetchOne G withSubject auth userName m st of
        (None, st1) \<Rightarrow> fetchAll G withSubject auth userName ms emailData st1
      | (Some r, st1) \<Rightarrow> fetchAll G withSubject auth userName ms (emailData @ [r]) st1)"

definition getLatestEmails ::
  "mailbox \<Rightarrow> bool \<Rightarrow> OAuth2Client \<Rightarrow> string \<Rightarrow> 'a io_scheme
     \<Rightarrow> (error + email list) \<times> 'a io_scheme" where
  "getLatestEmails G withSubject auth userName st =
     (let st1 = st\<lparr>log := log st @ [ListMessages]\<rparr>
      in case messages_list G auth of
           Inl err \<Rightarrow> (Inl err, st1)
         | Inr None \<Rightarrow> (Inr [], st1)
         | Inr (Some []) \<Rightarrow> (Inr [], st1)
         | Inr (Some (m # ms)) \<Rightarrow>
             (case fetchAll G withSubject auth userName (m # ms) [] st1 of
                (emailData, st2) \<Rightarrow> (Inr emailData, st2)))"

section \<open>The per-user variants\<close>

text \<open>
  The two per-user files (\<open>src/unnamed/part_000\<close> and \<open>src/unnamed/part_001\<close>) have
  the same handlers; they differ in the texts they send and in how they read
  \<open>credentials.json\<close> at startup.
\<close>

datatype variant = Part000 | Part001

text \<open>
  The token files decode to the credentials object, or to JSON \<open>null\<close> (\<open>None\<close>).
\<close>

record state = io +
  files :: "path \<rightharpoonup> Credentials option entry"

text \<open>
  The process-wide constants and the external collaborators: \<open>__dirname\<close>, the
  \<open>credentials\<close> global set at startup, the provider's answer to \<open>getToken(code)\<close>,
  whether a write to a path fails, and the mailbox API.
\<close>

record env =
  dirname :: string
  registration :: Registration
  getToken :: "string \<Rightarrow> error + Credentials"
  writeError :: "path \<Rightarrow> error option"
  gmail :: mailbox

definition getTokenPathForUser :: "string \<Rightarrow> string \<Rightarrow> path" where
  "getTokenPathForUser dir name = path_join [dir, ''token-'' @ name @ ''.json'']"

text \<open>
  \<open>credentials.web || credentials.installed\<close>, destructured: a TypeError when both
  are missing. \<open>redirect_uris[0]\<close> of an empty array is \<open>undefined\<close>. A new
  \<open>OAuth2\<close> client has the empty credentials object.
\<close>

definition clientKeys :: "Registration \<Rightarrow> error + ClientKeys" where
  "clientKeys r =
     (case web r of
        Some k \<Rightarrow> Inr k
      | None \<Rightarrow> (case installed r of Some k \<Rightarrow> Inr k | None \<Rightarrow> Inl TypeError))"

definition emptyCredentials :: Credentials where
  "emptyCredentials =
     \<lparr> access_token = None, refresh_token = None, token_type = None, expiry_date = None \<rparr>"

definition newOAuth2 :: "ClientKeys \<Rightarrow> OAuth2Client" where
  "newOAuth2 k =
     \<lparr> clientId = client_id k, clientSecret = client_secret k,
       redirectUri = (case redirect_uris k of [] \<Rightarrow> None | u # _ \<Rightarrow> Some u),
       credentials = Some emptyCredentials \<rparr>"

text \<open>
  \<open>createOAuth2ClientForUser\<close>: the \<open>try\<close> block reads the token file and decodes
  it; the \<open>catch\<close> is empty, so every failure leaves the new client as it is.
\<close>

definition createOAuth2ClientForUser ::
  "env \<Rightarrow> string \<Rightarrow> state \<Rightarrow> (error + OAuth2Client) \<times> state" where
  "createOAuth2ClientForUser E name st =
     (case clientKeys (registration E) of
        Inl err \<Rightarrow> (Inl err, st)
      | Inr k \<Rightarrow>
          let oAuth2Client = newOAuth2 k;
              tokenPath = getTokenPathForUser (dirname E) name;
              st1 = st\<lparr>log := log st @ [ReadFile tokenPath]\<rparr>
          in (case readFile (files st) tokenPath of
                Inl err \<Rightarrow> (Inr oAuth2Client, st1)
              | Inr tokenJson \<Rightarrow>
                  (case JSON_parse tokenJson of
                     Inl err \<Rightarrow> (Inr oAuth2Client, st1)
                   | Inr c \<Rightarrow> (Inr (oAuth2Client\<lparr>credentials := c\<rparr>), st1))))"

text \<open>
  JavaScript's \<open>!v\<close> on a value that is a string, \<open>undefined\<close> or \<open>null\<close>: only a
  non-empty string is truthy.
\<close>

definition truthy :: "string option \<Rightarrow> bool" where
  "truthy v = (case v of None \<Rightarrow> False | Some s \<Rightarrow> s \<noteq> [])"

subsection \<open>Responses\<close>

text \<open>
  The consent URL is the provider's root and the query parameters, kept as decoded
  key-value pairs in the order \<open>generateAuthUrl\<close> adds them.
\<close>

record AuthUrl =
  root :: string
  params :: "(string \<times> string) list"

text \<open>
  The bodies the handlers send: a plain text, the JSON object with the one field
  \<open>message\<close>, the JSON array of records, and the JSON object of a failure with its
  fields \<open>message\<close> and \<open>error\<close>. The \<open>error\<close> field is \<open>error.message\<close> of the
  error that was caught; its wording is the runtime's and the libraries', so the body
  keeps the error and not a text.
\<close>

datatype body =
    Text string
  | Message string
  | Emails "email list"
  | Failure string error

datatype response = Response nat body | Redirect AuthUrl

definition SCOPES :: "string list" where
  "SCOPES = [''https://www.googleapis.com/auth/gmail.readonly'']"

text \<open>
  \<open>generateAuthUrl(opts)\<close> of the client library: the caller's options, then
  \<open>response_type\<close>, \<open>client_id\<close> and \<open>redirect_uri\<close> from the client; an array of
  scopes is joined with spaces.
\<close>

fun joinSpace :: "string list \<Rightarrow> string" where
  "joinSpace [] = []"
| "joinSpace [s] = s"
| "joinSpace (s # t # ss) = s @ '' '' @ joinSpace (t # ss)"

definition generateAuthUrl ::
  "OAuth2Client \<Rightarrow> string \<Rightarrow> string \<Rightarrow> string list \<Rightarrow> string \<Rightarrow> AuthUrl" where
  "generateAuthUrl c accessType prompt scope st =
     \<lparr> root = ''https://accounts.google.com/o/oauth2/v2/auth'',
       params = [(''access_type'', accessType), (''prompt'', prompt),
                 (''scope'', joinSpace scope), (''state'', st),
                 (''response_type'', ''code''), (''client_id'', clientId c),
                 (''redirect_uri'', (case redirectUri c of None \<Rightarrow> [] | Some u \<Rightarrow> u))] \<rparr>"

subsection \<open>\<open>/authenticate/:name\<close>\<close>

definition authenticate_handler :: "env \<Rightarrow> string \<Rightarrow> state \<Rightarrow> response \<times> state" where
  "authenticate_handler E userName st =
     (case createOAuth2ClientForUser E userName st of
        (Inl err, st1) \<Rightarrow> (Response 500 (Text ''Error generating auth URL.''), st1)
      | (Inr oAuth2Client, st1) \<Rightarrow>
          (Redirect (generateAuthUrl oAuth2Client ''offline'' ''consent'' SCOPES userName), st1))"

subsection \<open>\<open>/oauth2callback\<close>\<close>

definition successText :: "variant \<Rightarrow> string \<Rightarrow> path \<Rightarrow> string" where
  "successText v userName tokenPath =
     (case v of
        Part000 \<Rightarrow> ''Authentication successful for '' @ userName @ ''.<br>Token saved to '' @ tokenPath
      | Part001 \<Rightarrow> ''Authentication successful for '' @ userName @ ''. Token saved.'')"

definition failureText :: "variant \<Rightarrow> string" where
  "failureText v =
     (case v of Part000 \<Rightarrow> ''Error retrieving access token'' | Part001 \<Rightarrow> ''Authentication failed.'')"

text \<open>
  The \<open>try\<close> block of the callback, entered with a truthy code and state: build the
  client for \<open>state\<close>, exchange the code, write the tokens to the file of \<open>state\<close>.
  Any throw ends in the \<open>catch\<close>, which answers 500.
\<close>

definition exchangeAndStore ::
  "variant \<Rightarrow> env \<Rightarrow> string \<Rightarrow> string \<Rightarrow> state \<Rightarrow> response \<times> state" where
  "exchangeAndStore v E code userName st =
     (case createOAuth2ClientForUser E userName st of
        (Inl err, st1) \<Rightarrow> (Response 500 (Text (failureText v)), st1)
      | (Inr oAuth2Client, st1) \<Rightarrow>
          let st2 = st1\<lparr>log := log st1 @ [TokenExchange code]\<rparr>
          in (case getToken E code of
                Inl err \<Rightarrow> (Response 500 (Text (failureText v)), st2)
              | Inr tokens \<Rightarrow>
                  let tokenPath = getTokenPathForUser (dirname E) userName;
                      st3 = st2\<lparr>log := log st2 @ [WriteFile tokenPath]\<rparr>
                  in (case writeError E tokenPath of
                        Some err \<Rightarrow> (Response 500 (Text (failureText v)), st3)
                      | None \<Rightarrow>
                          (Response 200 (Text (successText v userName tokenPath)),
                           st3\<lparr>files := (files st3)(tokenPath \<mapsto> File (Json (Some tokens)))\<rparr>))))"

definition oauth2callback ::
  "variant \<Rightarrow> env \<Rightarrow> string option \<Rightarrow> string option \<Rightarrow> state \<Rightarrow> response \<times> state" where
  "oauth2callback v E code state st =
     (if \<not> truthy code \<or> \<not> truthy state
      then (Response 400 (Text ''Missing code or state param.''), st)
      else exchangeAndStore v E (the code) (the state) st)"

subsection \<open>\<open>/qr/:name\<close>\<close>

text \<open>
  The gate of the handler, \<open>!credentials || !credentials.refresh_token\<close>, negated.
\<close>

definition isAuthorized :: "OAuth2Client \<Rightarrow> bool" where
  "isAuthorized c =
     (\<not> (credentials c = None \<or> \<not> truthy (refresh_token (the (credentials c)))))"

definition notAuthenticatedMessage :: "string \<Rightarrow> string" where
  "notAuthenticatedMessage userName =
     ''User '' @ [CHR 0x22] @ userName @ [CHR 0x22]
       @ '' is not authenticated. Please visit /authenticate/'' @ userName @ '' first.''"

definition qr :: "env \<Rightarrow> string \<Rightarrow> state \<Rightarrow> response \<times> state" where
  "qr E userName st =
     (case createOAuth2ClientForUser E userName st of
        (Inl err, st1) \<Rightarrow> (Response 500 (Failure ''Failed to fetch emails'' err), st1)
      | (Inr oAuth2Client, st1) \<Rightarrow>
          if \<not> isAuthorized oAuth2Client
          then (Response 400 (Message (notAuthenticatedMessage userName)), st1)
          else (case getLatestEmails (gmail E) True oAuth2Client userName st1 of
                  (Inl err, st2) \<Rightarrow>
                    (Response 500 (Failure ''Failed to fetch emails'' err), st2)
                | (Inr emails, st2) \<Rightarrow> (Response 200 (Emails emails), st2)))"

subsection \<open>Startup\<close>

text \<open>
  Both files read \<open>credentials.json\<close> in a \<open>try\<close> whose \<open>catch\<close> calls
  \<open>process.exit(1)\<close>. \<open>part_001\<close> reads with \<open>fs.readFileSync\<close>, which returns
  the text or throws. \<open>part_000\<close> binds \<open>fs\<close> to \<open>require('fs').promises\<close> and calls
  \<open>fs.readFile\<close> without \<open>await\<close>: the value handed to \<open>JSON.parse\<close> is the
  promise, which \<open>JSON.parse\<close> converts to the string \<open>[object Promise]\<close>.
\<close>

datatype 'a js_value = Str "'a file_text" | Promise "error + 'a file_text"

fun toString :: "'a js_value \<Rightarrow> 'a file_text" where
  "toString (Str t) = t"
| "toString (Promise r) = NotJson ''[object Promise]''"

datatype outcome = Exit nat | Listening Registration

definition CREDENTIALS_PATH :: "string \<Rightarrow> path" where
  "CREDENTIALS_PATH dir = path_join [dir, ''credentials.json'']"

definition startup :: "variant \<Rightarrow> string \<Rightarrow> (path \<rightharpoonup> Registration entry) \<Rightarrow> outcome" where
  "startup v dir fs =
     (case v of
        Part001 \<Rightarrow>
          (case readFile fs (CREDENTIALS_PATH dir) of
             Inl err \<Rightarrow> Exit 1
           | Inr data \<Rightarrow>
               (case JSON_parse (toString (Str data)) of
                  Inl err \<Rightarrow> Exit 1
                | Inr c \<Rightarrow> Listening c))
      | Part000 \<Rightarrow>
          (let data = Promise (readFile fs (CREDENTIALS_PATH dir))
           in case JSON_parse (toString data) of
                Inl err \<Rightarrow> Exit 1
              | Inr c \<Rightarrow> Listening c))"

section \<open>The single-cache variant (\<open>server.js\<close>)\<close>

text \<open>
  \<open>token.json\<close> holds what \<open>saveCredentials\<close> writes; a missing
  \<open>refresh_token\<close> is \<open>None\<close>.
\<close>

record AuthorizedUser =
  au_type :: string
  au_client_id :: string
  au_client_secret :: string
  au_refresh_token :: "string option"



text \<open>
  The working directory and the external collaborators: \<open>google.auth.fromJSON\<close>, the
  interactive flow \<open>authenticate\<close> of the local-auth library, whether the write of
  \<open>token.json\<close> fails, the mailbox API, and what the library leaves in a client object
  it was given for the calls logged so far (\<open>s_refreshed\<close>).
\<close>

record single_env =
  cwd :: string
  fromJSON :: "AuthorizedUser \<Rightarrow> error + OAuth2Client"
  authenticate :: "error + OAuth2Client"
  s_writeError :: "error option"
  s_gmail :: mailbox
  s_refreshed :: "event list \<Rightarrow> OAuth2Client \<Rightarrow> OAuth2Client"








section \<open>Example inputs\<close>

text \<open>
  A registration, two grants, a mailbox that lists three messages and fails to fetch the
  second, and a store in which only the user \<open>a\<close> has a grant.
\<close>

definition keys0 :: ClientKeys where
  "keys0 = \<lparr> client_id = ''client-1'', client_secret = ''secret-1'',
             redirect_uris = [''http://localhost:5001/oauth2callback''] \<rparr>"

definition registration0 :: Registration where
  "registration0 = \<lparr> web = Some keys0, installed = None \<rparr>"

definition grant0 :: Credentials where
  "grant0 = \<lparr> access_token = Some ''at-0'', refresh_token = Some ''rt-0'',
              token_type = Some ''Bearer'', expiry_date = Some 3600 \<rparr>"

definition grant1 :: Credentials where
  "grant1 = \<lparr> access_token = Some ''at-1'', refresh_token = Some ''rt-1'',
              token_type = Some ''Bearer'', expiry_date = Some 7200 \<rparr>"

definition headers0 :: "header list" where
  "headers0 = [\<lparr> h_name = ''Subject'', h_value = ''visit'' \<rparr>,
               \<lparr> h_name = ''Date'', h_value = ''Mon, 2 Nov 2026 09:00:00 +0000'' \<rparr>]"

definition mailbox0 :: mailbox where
  "mailbox0 =
     \<lparr> messages_list = (\<lambda>c. Inr (Some [\<lparr>msg_id = ''m1''\<rparr>, \<lparr>msg_id = ''m2''\<rparr>, \<lparr>msg_id = ''m3''\<rparr>])),
       messages_get = (\<lambda>c i. if i = ''m2'' then Inl (ProviderError ''backend error'')
                               else Inr headers0),
       toISOString = (\<lambda>v. Some ''2026-11-02T09:00:00.000Z'') \<rparr>"

definition env0 :: env where
  "env0 =
     \<lparr> dirname = ''/app'', registration = registration0,
       getToken = (\<lambda>c. if c = ''good'' then Inr grant1
                         else Inl (ProviderError ''invalid_grant'')),
       writeError = (\<lambda>p. None),
       gmail = mailbox0 \<rparr>"

definition state0 :: state where
  "state0 = \<lparr> log = [], next_uuid = 0,
               files = [''/app/token-a.json'' \<mapsto> File (Json (Some grant0))] \<rparr>"

definition client0 :: OAuth2Client where
  "client0 = (newOAuth2 keys0)\<lparr>credentials := Some grant0\<rparr>"



text \<open>
  The store with the token file of \<open>a\<close> unreadable, and with a text in it that is
  not JSON; the single-cache state after a first request has filled the cache.
\<close>

definition state_unreadable :: state where
  "state_unreadable = \<lparr> log = [], next_uuid = 0,
                         files = [''/app/token-a.json'' \<mapsto> Unreadable] \<rparr>"

definition state_corrupt :: state where
  "state_corrupt = \<lparr> log = [], next_uuid = 0,
                      files = [''/app/token-a.json'' \<mapsto> File (NotJson ''{access_tok'')] \<rparr>"

definition state_empty :: state where
  "state_empty = \<lparr> log = [], next_uuid = 0, files = Map.empty \<rparr>"


text \<open>
  A mailbox that lists the same three messages, fetches the first and the third and
  fails on the second, where the first carries a \<open>Date\<close> header that is not a date.
\<close>

definition headers_bad_date :: "header list" where
  "headers_bad_date = [\<lparr> h_name = ''Subject'', h_value = ''visit'' \<rparr>,
                       \<lparr> h_name = ''Date'', h_value = ''soon'' \<rparr>]"

definition mailbox1 :: mailbox where
  "mailbox1 =
     \<lparr> messages_list = (\<lambda>c. Inr (Some [\<lparr>msg_id = ''m1''\<rparr>, \<lparr>msg_id = ''m2''\<rparr>, \<lparr>msg_id = ''m3''\<rparr>])),
       messages_get = (\<lambda>c i. if i = ''m2'' then Inl (ProviderError ''backend error'')
                               else if i = ''m1'' then Inr headers_bad_date
                               else Inr headers0),
       toISOString = (\<lambda>v. if v = ''soon'' then None else Some ''2026-11-02T09:00:00.000Z'') \<rparr>"

section \<open>Facts about \<open>path.join\<close>\<close>

lemma splitSlash_nonempty: "splitSlash s \<noteq> []"
  by (induction s) (auto split: list.splits)

lemma splitSlash_plain: "CHR ''/'' \<notin> set seg \<Longrightarrow> splitSlash seg = [seg]"
  by (induction seg) auto

lemma splitSlash_snoc:
  "CHR ''/'' \<notin> set seg \<Longrightarrow> splitSlash (d @ ''/'' @ seg) = splitSlash d @ [seg]"
proof (induction d)
  case Nil
  then show ?case by (simp add: splitSlash_plain)
next
  case (Cons c d)
  then show ?case
    using splitSlash_nonempty [of d] by (auto split: list.splits)
qed

lemma normalizeString_snoc:
  "normalizeString a st (xs @ [seg]) = normStep a (normalizeString a st xs) seg"
  by (induction xs arbitrary: st) auto

lemma joinSlash_snoc: "joinSlash (st @ [seg]) = concat (map (\<lambda>s. s @ ''/'') st) @ seg"
  by (induction st rule: joinSlash.induct) auto

text \<open>
  Joining a directory with one ordinary file name (no slash, not empty, not \<open>.\<close> or
  \<open>..\<close>) appends the name to a prefix that depends on the directory alone.
\<close>

lemma path_join_plain:
  "\<exists>pre. \<forall>seg. CHR ''/'' \<notin> set seg \<and> seg \<noteq> [] \<and> seg \<noteq> ''.'' \<and> seg \<noteq> ''..''
            \<longrightarrow> path_join [dir, seg] = pre @ seg"
proof -
  define pre where "pre =
     (if dir = [] then []
      else (if hd dir = CHR ''/'' then ''/'' else [])
           @ concat (map (\<lambda>s. s @ ''/'') (normalizeString (hd dir \<noteq> CHR ''/'') [] (splitSlash dir))))"
  have "path_join [dir, x] = pre @ x"
    if x: "CHR ''/'' \<notin> set x" "x \<noteq> []" "x \<noteq> ''.''" "x \<noteq> ''..''" for x
  proof (cases "dir = []")
    case True
    have "hd x \<noteq> CHR ''/''" using x(1,2) by (metis hd_in_set)
    moreover have "last x \<noteq> CHR ''/''" using x(1,2) by (metis last_in_set)
    ultimately show ?thesis using True x
      by (simp add: path_join_def normalize_def pre_def normStep_def splitSlash_plain)
  next
    case False
    have sp: "splitSlash (dir @ ''/'' @ x) = splitSlash dir @ [x]"
      using x(1) by (rule splitSlash_snoc)
    have hd: "hd (dir @ ''/'' @ x) = hd dir" using False by simp
    have "last (dir @ ''/'' @ x) = last x" using x(2) by simp
    then have la: "last (dir @ ''/'' @ x) \<noteq> CHR ''/''"
      using x(1,2) by (metis last_in_set)
    have st: "normStep a st x = st @ [x]" for a st
      using x by (simp add: normStep_def)
    have j: "joinSlash (filter (\<lambda>a. a \<noteq> []) [dir, x]) = dir @ ''/'' @ x"
      using False x(2) by simp
    have n: "normalize (dir @ ''/'' @ x) = pre @ x"
      unfolding normalize_def pre_def Let_def sp hd normalizeString_snoc st joinSlash_snoc
      using False la x(2) by simp
    show ?thesis
      unfolding path_join_def Let_def j n using False by simp
  qed
  then show ?thesis by blast
qed

lemma getTokenPathForUser_inj:
  assumes "CHR ''/'' \<notin> set u1" "CHR ''/'' \<notin> set u2" "u1 \<noteq> u2"
  shows "getTokenPathForUser dir u1 \<noteq> getTokenPathForUser dir u2"
proof -
  have ok: "CHR ''/'' \<notin> set (''token-'' @ u @ ''.json'') \<and> ''token-'' @ u @ ''.json'' \<noteq> []
          \<and> ''token-'' @ u @ ''.json'' \<noteq> ''.'' \<and> ''token-'' @ u @ ''.json'' \<noteq> ''..''"
    if "CHR ''/'' \<notin> set u" for u
    using that by simp
  from path_join_plain [of dir]
  obtain pre where pre:
    "\<And>x. CHR ''/'' \<notin> set x \<and> x \<noteq> [] \<and> x \<noteq> ''.'' \<and> x \<noteq> ''..'' \<Longrightarrow> path_join [dir, x] = pre @ x"
    by blast
  have "getTokenPathForUser dir u1 = pre @ ''token-'' @ u1 @ ''.json''"
    unfolding getTokenPathForUser_def using pre [OF ok [OF assms(1)]] by simp
  moreover have "getTokenPathForUser dir u2 = pre @ ''token-'' @ u2 @ ''.json''"
    unfolding getTokenPathForUser_def using pre [OF ok [OF assms(2)]] by simp
  ultimately show ?thesis using assms(3) by simp
qed

lemma path_of_a: "getTokenPathForUser ''/app'' ''a'' = ''/app/token-a.json''"
  by code_simp

lemma path_of_b: "getTokenPathForUser ''/app'' ''b'' = ''/app/token-b.json''"
  by code_simp

lemma path_of_zed: "getTokenPathForUser ''/app'' ''zed'' = ''/app/token-zed.json''"
  by code_simp

lemma credentials_path_app: "CREDENTIALS_PATH ''/app'' = ''/app/credentials.json''"
  by code_simp


lemma path_of_dotdot: "getTokenPathForUser ''/app'' ''x/../token-a'' = ''/app/token-a.json''"
  by code_simp

section \<open>Facts about the handlers\<close>

lemma JSON_parse_Inr: "JSON_parse t = Inr v \<longleftrightarrow> t = Json v"
  by (cases t) auto

lemma createOAuth2ClientForUser_files:
  "files (snd (createOAuth2ClientForUser E n st)) = files st"
  by (simp add: createOAuth2ClientForUser_def Let_def split: sum.splits)

lemma createOAuth2ClientForUser_cong:
  "files st (getTokenPathForUser (dirname E) n) = files st' (getTokenPathForUser (dirname E) n)
   \<Longrightarrow> fst (createOAuth2ClientForUser E n st) = fst (createOAuth2ClientForUser E n st')"
  by (simp add: createOAuth2ClientForUser_def readFile_def Let_def split: sum.splits)

lemma exchangeAndStore_files:
  "files (snd (exchangeAndStore v E c u st)) = files st \<or>
   (\<exists>tokens. getToken E c = Inr tokens \<and>
      files (snd (exchangeAndStore v E c u st)) =
        (files st)(getTokenPathForUser (dirname E) u \<mapsto> File (Json (Some tokens))))"
  by (auto simp: exchangeAndStore_def createOAuth2ClientForUser_def Let_def
      split: sum.splits option.splits prod.splits)

lemma oauth2callback_files_elsewhere:
  assumes "p \<noteq> getTokenPathForUser (dirname E) u"
  shows "files (snd (oauth2callback v E code (Some u) st)) p = files st p"
proof (cases "\<not> truthy code \<or> \<not> truthy (Some u)")
  case True
  then show ?thesis by (simp add: oauth2callback_def)
next
  case False
  then have "oauth2callback v E code (Some u) st = exchangeAndStore v E (the code) u st"
    by (simp add: oauth2callback_def)
  then show ?thesis
    using exchangeAndStore_files [of v E "the code" u st] assms by auto
qed

lemma callback_success:
  assumes "oauth2callback v E code state st = (Response 200 b, st')"
  shows "\<exists>c s tokens k. code = Some c \<and> state = Some s \<and> getToken E c = Inr tokens
           \<and> clientKeys (registration E) = Inr k
           \<and> files st' = (files st)(getTokenPathForUser (dirname E) s \<mapsto> File (Json (Some tokens)))"
  using assms
  by (auto simp: oauth2callback_def truthy_def exchangeAndStore_def createOAuth2ClientForUser_def
      Let_def split: sum.splits option.splits if_splits)

lemma load_stored:
  "clientKeys (registration E) = Inr k \<Longrightarrow>
   files st (getTokenPathForUser (dirname E) u) = Some (File (Json c)) \<Longrightarrow>
   fst (createOAuth2ClientForUser E u st) = Inr ((newOAuth2 k)\<lparr>credentials := c\<rparr>)"
  by (simp add: createOAuth2ClientForUser_def readFile_def readEntry_def Let_def)

subsection \<open>The mailbox query\<close>

lemma fetchOne_failed:
  "messages_get G auth (msg_id m) = Inl err \<Longrightarrow>
   fetchOne G ws auth u m st = (None, st\<lparr>log := log st @ [GetMessage (msg_id m)]\<rparr>)"
  by (simp add: fetchOne_def)

lemma fetchOne_pushed:
  "messages_get G auth (msg_id m) = Inr hs \<Longrightarrow> dateOf G hs = Some d \<Longrightarrow>
   fetchOne G ws auth u m st =
     (Some \<lparr> e_id = Uuid (next_uuid st), e_date = d, e_place = ''shibuya-OOOO'',
             e_person = u, e_mail = mailLink m, e_QR_data = ''abcdefghijk0123456'',
             e_subject = (if ws then Some (subjectOf hs) else None) \<rparr>,
      st\<lparr>log := log st @ [GetMessage (msg_id m)], next_uuid := Suc (next_uuid st)\<rparr>)"
  by (simp add: fetchOne_def)

text \<open>The query changes nothing of the state but the log and the identifier supply.\<close>

lemma io_frame_log:
  "\<exists>l n. (st::'a io_scheme)\<lparr>log := l0\<rparr> = st\<lparr>log := l, next_uuid := n\<rparr>"
proof -
  have "st\<lparr>log := l0\<rparr> = st\<lparr>log := l0, next_uuid := next_uuid st\<rparr>" by simp
  then show ?thesis by blast
qed

lemma fetchOne_frame:
  "\<exists>l n. snd (fetchOne G ws auth u m st) = st\<lparr>log := l, next_uuid := n\<rparr>"
proof (cases "messages_get G auth (msg_id m)")
  case (Inl err)
  then show ?thesis by (simp add: fetchOne_failed io_frame_log)
next
  case (Inr hs)
  show ?thesis
  proof (cases "dateOf G hs")
    case None
    then show ?thesis using Inr by (simp add: fetchOne_def io_frame_log)
  next
    case (Some d)
    then show ?thesis using Inr by (auto simp: fetchOne_pushed)
  qed
qed

lemma fetchAll_frame:
  "\<exists>l n. snd (fetchAll G ws auth u ms acc st) = st\<lparr>log := l, next_uuid := n\<rparr>"
proof (induction ms arbitrary: acc st)
  case Nil
  have "st = st\<lparr>log := log st, next_uuid := next_uuid st\<rparr>" by simp
  then show ?case by (metis fetchAll.simps(1) snd_conv)
next
  case (Cons m ms)
  obtain r st1 where f: "fetchOne G ws auth u m st = (r, st1)"
    by (cases "fetchOne G ws auth u m st")
  from fetchOne_frame [of G ws auth u m st] f
  obtain l n where st1: "st1 = st\<lparr>log := l, next_uuid := n\<rparr>" by auto
  show ?case
  proof (cases r)
    case None
    from Cons.IH [of acc st1] obtain l' n' where
      "snd (fetchAll G ws auth u ms acc st1) = st1\<lparr>log := l', next_uuid := n'\<rparr>" by blast
    then show ?thesis using f None st1 by auto
  next
    case (Some e)
    from Cons.IH [of "acc @ [e]" st1] obtain l' n' where
      "snd (fetchAll G ws auth u ms (acc @ [e]) st1) = st1\<lparr>log := l', next_uuid := n'\<rparr>" by blast
    then show ?thesis using f Some st1 by auto
  qed
qed

lemma getLatestEmails_frame:
  "\<exists>l n. snd (getLatestEmails G ws auth u st) = st\<lparr>log := l, next_uuid := n\<rparr>"
proof (cases "messages_list G auth")
  case (Inl err)
  then show ?thesis by (simp add: getLatestEmails_def io_frame_log)
next
  case (Inr r)
  show ?thesis
  proof (cases r)
    case None
    then show ?thesis using Inr by (simp add: getLatestEmails_def io_frame_log)
  next
    case (Some ms)
    show ?thesis
    proof (cases ms)
      case Nil
      then show ?thesis using Inr Some by (simp add: getLatestEmails_def io_frame_log)
    next
      case (Cons m ms')
      from fetchAll_frame [of G ws auth u "m # ms'" "[]" "st\<lparr>log := log st @ [ListMessages]\<rparr>"]
      obtain l n where
        "snd (fetchAll G ws auth u (m # ms') [] (st\<lparr>log := log st @ [ListMessages]\<rparr>))
           = st\<lparr>log := l, next_uuid := n\<rparr>"
        by auto
      then have "snd (getLatestEmails G ws auth u st) = st\<lparr>log := l, next_uuid := n\<rparr>"
        using Inr Some Cons
        by (simp add: getLatestEmails_def Let_def case_prod_beta del: fetchAll.simps)
      then show ?thesis by blast
    qed
  qed
qed

lemma getLatestEmails_three:
  assumes "messages_list G auth = Inr (Some [m1, m2, m3])"
      and "messages_get G auth (msg_id m1) = Inr h1" "dateOf G h1 = Some d1"
      and "messages_get G auth (msg_id m2) = Inl err"
      and "messages_get G auth (msg_id m3) = Inr h3" "dateOf G h3 = Some d3"
  shows "getLatestEmails G ws auth u st =
     (Inr [\<lparr> e_id = Uuid (next_uuid st), e_date = d1, e_place = ''shibuya-OOOO'',
             e_person = u, e_mail = mailLink m1, e_QR_data = ''abcdefghijk0123456'',
             e_subject = (if ws then Some (subjectOf h1) else None) \<rparr>,
           \<lparr> e_id = Uuid (Suc (next_uuid st)), e_date = d3, e_place = ''shibuya-OOOO'',
             e_person = u, e_mail = mailLink m3, e_QR_data = ''abcdefghijk0123456'',
             e_subject = (if ws then Some (subjectOf h3) else None) \<rparr>],
      st\<lparr>log := log st @ [ListMessages, GetMessage (msg_id m1), GetMessage (msg_id m2),
                            GetMessage (msg_id m3)],
         next_uuid := Suc (Suc (next_uuid st))\<rparr>)"
  using assms
  by (simp add: getLatestEmails_def Let_def fetchOne_failed fetchOne_pushed)

lemma getLatestEmails_throws_iff:
  "fst (getLatestEmails G ws auth u st) = Inl err \<longleftrightarrow> messages_list G auth = Inl err"
  by (auto simp: getLatestEmails_def Let_def split: sum.splits option.splits list.splits prod.splits)

subsection \<open>The single cache\<close>







subsection \<open>Startup of \<open>part_001\<close>\<close>

text \<open>
  With the synchronous read the server starts exactly when \<open>credentials.json\<close> exists,
  can be read and decodes; in every other case the process exits with status 1.
\<close>

lemma startup_part001_listening:
  "startup Part001 dir fs = Listening c \<longleftrightarrow> fs (CREDENTIALS_PATH dir) = Some (File (Json c))"
  by (auto simp: startup_def readFile_def readEntry_def JSON_parse_Inr
      split: sum.splits option.splits entry.splits)

lemma startup_part001_exit:
  "startup Part001 dir fs = Exit n \<longleftrightarrow>
     n = 1 \<and> (\<forall>c. fs (CREDENTIALS_PATH dir) \<noteq> Some (File (Json c)))"
  by (auto simp: startup_def readFile_def readEntry_def JSON_parse_Inr
      split: sum.splits option.splits entry.splits file_text.splits)

subsection \<open>Runs on the example inputs\<close>

lemma callback_good_b:
  "oauth2callback Part001 env0 (Some ''good'') (Some ''b'') state0
     = (Response 200 (Text ''Authentication successful for b. Token saved.''),
        state0\<lparr>log := [ReadFile ''/app/token-b.json'', TokenExchange ''good'',
                       WriteFile ''/app/token-b.json''],
               files := (files state0)(''/app/token-b.json'' \<mapsto> File (Json (Some grant1)))\<rparr>)"
  by (simp add: oauth2callback_def truthy_def exchangeAndStore_def createOAuth2ClientForUser_def
      Let_def env0_def state0_def path_of_b clientKeys_def registration0_def readFile_def
      readEntry_def successText_def)

lemma callback_good_dotdot:
  "oauth2callback Part001 env0 (Some ''good'') (Some ''x/../token-a'') state0
     = (Response 200 (Text ''Authentication successful for x/../token-a. Token saved.''),
        state0\<lparr>log := [ReadFile ''/app/token-a.json'', TokenExchange ''good'',
                       WriteFile ''/app/token-a.json''],
               files := (files state0)(''/app/token-a.json'' \<mapsto> File (Json (Some grant1)))\<rparr>)"
  by (simp add: oauth2callback_def truthy_def exchangeAndStore_def createOAuth2ClientForUser_def
      Let_def env0_def state0_def path_of_dotdot clientKeys_def registration0_def readFile_def
      readEntry_def successText_def)

lemma callback_good_dotdot_empty:
  "oauth2callback Part001 env0 (Some ''good'') (Some ''x/../token-a'') state_empty
     = (Response 200 (Text ''Authentication successful for x/../token-a. Token saved.''),
        state_empty\<lparr>log := [ReadFile ''/app/token-a.json'', TokenExchange ''good'',
                             WriteFile ''/app/token-a.json''],
                     files := [''/app/token-a.json'' \<mapsto> File (Json (Some grant1))]\<rparr>)"
  by (simp add: oauth2callback_def truthy_def exchangeAndStore_def createOAuth2ClientForUser_def
      Let_def env0_def state_empty_def path_of_dotdot clientKeys_def registration0_def readFile_def
      readEntry_def successText_def)

lemma load_a_state0: "fst (createOAuth2ClientForUser env0 ''a'' state0) = Inr client0"
  by (simp add: createOAuth2ClientForUser_def Let_def env0_def state0_def path_of_a clientKeys_def
      registration0_def readFile_def readEntry_def client0_def)

lemma clientKeys_env0: "clientKeys (registration env0) = Inr keys0"
  by (simp add: env0_def clientKeys_def registration0_def)


section \<open>The claims\<close>

subsection \<open>C5: a callback without code or state\<close>

text \<open>
  C5. For every request to the callback in which \<open>code\<close> is absent or \<open>state\<close> is
  absent, the handler answers 400 with the missing-parameter text and the state is left
  exactly as it was: nothing is appended to the log (no read of a token file, no token
  exchange, no write) and no file changes.
\<close>

theorem callback_missing_parameter:
  "code = None \<or> state = None \<Longrightarrow>
   oauth2callback v E code state st = (Response 400 (Text ''Missing code or state param.''), st)"
  by (auto simp: oauth2callback_def truthy_def)

theorem callback_missing_parameter_witness:
  "((None :: string option) = None \<or> Some ''a'' = (None :: string option)) \<and>
   oauth2callback Part001 env0 None (Some ''a'') state0
     = (Response 400 (Text ''Missing code or state param.''), state0)"
  using callback_missing_parameter [of None "Some ''a''" Part001 env0 state0] by simp

subsection \<open>C10: a failed exchange writes nothing\<close>

text \<open>
  C10. If the provider's token exchange throws for a given code and state (both
  present and non-empty), the handler answers 500 with the failure text, the files are
  exactly what they were before the request, and the request has logged no write.
\<close>

theorem exchange_failure_writes_nothing:
  assumes "c \<noteq> []" "s \<noteq> []" "getToken E c = Inl err"
  shows "fst (oauth2callback v E (Some c) (Some s) st) = Response 500 (Text (failureText v))
       \<and> files (snd (oauth2callback v E (Some c) (Some s) st)) = files st
       \<and> (\<forall>p. WriteFile p \<in> set (log (snd (oauth2callback v E (Some c) (Some s) st)))
               \<longrightarrow> WriteFile p \<in> set (log st))"
  using assms
  by (auto simp: oauth2callback_def truthy_def exchangeAndStore_def createOAuth2ClientForUser_def
      Let_def split: sum.splits)

theorem exchange_failure_writes_nothing_witness:
  "''bad'' \<noteq> [] \<and> ''a'' \<noteq> [] \<and> getToken env0 ''bad'' = Inl (ProviderError ''invalid_grant'')
   \<and> fst (oauth2callback Part000 env0 (Some ''bad'') (Some ''a'') state0)
       = Response 500 (Text ''Error retrieving access token'')
   \<and> files (snd (oauth2callback Part000 env0 (Some ''bad'') (Some ''a'') state0)) = files state0
   \<and> files state0 ''/app/token-a.json'' = Some (File (Json (Some grant0)))"
proof -
  have h: "getToken env0 ''bad'' = Inl (ProviderError ''invalid_grant'')"
    by (simp add: env0_def)
  have f: "files state0 ''/app/token-a.json'' = Some (File (Json (Some grant0)))"
    by (simp add: state0_def)
  from exchange_failure_writes_nothing [of "''bad''" "''a''" env0 _ Part000 state0, OF _ _ h]
  show ?thesis using h f by (simp add: failureText_def)
qed

subsection \<open>C3: where the callback stores the grant\<close>

text \<open>
  C3, as the claim states it, fails: the key is not the literal value of \<open>state\<close>
  but the normalised path made from it. On the empty store, a callback with state
  \<open>x/../token-a\<close> succeeds and writes \<open>/app/token-a.json\<close>; nothing is stored at the
  path spelled with the literal state, and the identity \<open>a\<close>, which is not the state and
  had no grant, now restores the exchanged grant.
\<close>

theorem callback_stores_under_other_identity:
  "oauth2callback Part001 env0 (Some ''good'') (Some ''x/../token-a'') state_empty
     = (Response 200 (Text ''Authentication successful for x/../token-a. Token saved.''),
        state_empty\<lparr>log := [ReadFile ''/app/token-a.json'', TokenExchange ''good'',
                             WriteFile ''/app/token-a.json''],
                     files := [''/app/token-a.json'' \<mapsto> File (Json (Some grant1))]\<rparr>)
   \<and> ''a'' \<noteq> ''x/../token-a''
   \<and> files (snd (oauth2callback Part001 env0 (Some ''good'') (Some ''x/../token-a'') state_empty))
        ''/app/token-x/../token-a.json'' = None
   \<and> fst (createOAuth2ClientForUser env0 ''a'' state_empty) = Inr (newOAuth2 keys0)
   \<and> fst (createOAuth2ClientForUser env0 ''a''
            (snd (oauth2callback Part001 env0 (Some ''good'') (Some ''x/../token-a'') state_empty)))
       = Inr ((newOAuth2 keys0)\<lparr>credentials := Some grant1\<rparr>)
   \<and> newOAuth2 keys0 \<noteq> (newOAuth2 keys0)\<lparr>credentials := Some grant1\<rparr>"
proof -
  have "fst (createOAuth2ClientForUser env0 ''a'' state_empty) = Inr (newOAuth2 keys0)"
    by (simp add: createOAuth2ClientForUser_def Let_def env0_def state_empty_def path_of_a
        clientKeys_def registration0_def readFile_def readEntry_def)
  moreover have "fst (createOAuth2ClientForUser env0 ''a''
            (snd (oauth2callback Part001 env0 (Some ''good'') (Some ''x/../token-a'') state_empty)))
       = Inr ((newOAuth2 keys0)\<lparr>credentials := Some grant1\<rparr>)"
    unfolding callback_good_dotdot_empty
    by (simp add: createOAuth2ClientForUser_def Let_def env0_def state_empty_def path_of_a
        clientKeys_def registration0_def readFile_def readEntry_def)
  moreover have "files (snd (oauth2callback Part001 env0 (Some ''good'') (Some ''x/../token-a'') state_empty))
        ''/app/token-x/../token-a.json'' = None"
    unfolding callback_good_dotdot_empty by (simp add: state_empty_def)
  moreover have "newOAuth2 keys0 \<noteq> (newOAuth2 keys0)\<lparr>credentials := Some grant1\<rparr>"
    by (simp add: newOAuth2_def emptyCredentials_def grant1_def OAuth2Client.iffs Credentials.iffs)
  ultimately show ?thesis using callback_good_dotdot_empty by simp
qed

text \<open>
  C3, amended. For every code and state and every state of the store (nothing in it
  records which authorizations were begun), a callback that answers 200 was given a code
  and a state, has exchanged the code for a grant, and has written that grant to the file
  \<open>path.join(dir, token-<state>.json)\<close> and to no other file; the client restored for
  \<open>state\<close> afterwards carries that grant. When \<open>state\<close> contains no slash, no other
  identity without a slash has that file, and the files of all of them are unchanged: among
  such identities the grant is stored under \<open>state\<close> alone.
\<close>

theorem callback_persists_under_state:
  assumes "oauth2callback v E code state st = (Response 200 b, st')"
  shows "\<exists>c s tokens k. code = Some c \<and> state = Some s \<and> getToken E c = Inr tokens
           \<and> files st' = (files st)(path_join [dirname E, ''token-'' @ s @ ''.json'']
                                      \<mapsto> File (Json (Some tokens)))
           \<and> clientKeys (registration E) = Inr k
           \<and> fst (createOAuth2ClientForUser E s st') = Inr ((newOAuth2 k)\<lparr>credentials := Some tokens\<rparr>)
           \<and> (CHR ''/'' \<notin> set s \<longrightarrow>
                (\<forall>u. CHR ''/'' \<notin> set u \<and> u \<noteq> s \<longrightarrow>
                   getTokenPathForUser (dirname E) u \<noteq> path_join [dirname E, ''token-'' @ s @ ''.json'']
                   \<and> files st' (getTokenPathForUser (dirname E) u)
                       = files st (getTokenPathForUser (dirname E) u)))"
proof -
  from callback_success [OF assms] obtain c s tokens k where
    c: "code = Some c" and s: "state = Some s" and t: "getToken E c = Inr tokens"
    and k: "clientKeys (registration E) = Inr k"
    and f: "files st' = (files st)(getTokenPathForUser (dirname E) s \<mapsto> File (Json (Some tokens)))"
    by blast
  have p: "getTokenPathForUser (dirname E) s = path_join [dirname E, ''token-'' @ s @ ''.json'']"
    by (simp add: getTokenPathForUser_def)
  have l: "fst (createOAuth2ClientForUser E s st') = Inr ((newOAuth2 k)\<lparr>credentials := Some tokens\<rparr>)"
    using k f by (intro load_stored) simp_all
  have o: "getTokenPathForUser (dirname E) u \<noteq> path_join [dirname E, ''token-'' @ s @ ''.json'']
           \<and> files st' (getTokenPathForUser (dirname E) u) = files st (getTokenPathForUser (dirname E) u)"
    if "CHR ''/'' \<notin> set s" "CHR ''/'' \<notin> set u" "u \<noteq> s" for u
  proof -
    have "getTokenPathForUser (dirname E) u \<noteq> getTokenPathForUser (dirname E) s"
      using that by (intro getTokenPathForUser_inj)
    then show ?thesis using f p by simp
  qed
  have f': "files st' = (files st)(path_join [dirname E, ''token-'' @ s @ ''.json'']
                                      \<mapsto> File (Json (Some tokens)))"
    using f p by simp
  show ?thesis
    using c s t k f' l o by blast
qed

theorem callback_persists_under_state_witness:
  "oauth2callback Part001 env0 (Some ''good'') (Some ''b'') state0
     = (Response 200 (Text ''Authentication successful for b. Token saved.''),
        state0\<lparr>log := [ReadFile ''/app/token-b.json'', TokenExchange ''good'',
                       WriteFile ''/app/token-b.json''],
               files := (files state0)(''/app/token-b.json'' \<mapsto> File (Json (Some grant1)))\<rparr>)
   \<and> log state0 = []
   \<and> path_join [dirname env0, ''token-'' @ ''b'' @ ''.json''] = ''/app/token-b.json''
   \<and> files (snd (oauth2callback Part001 env0 (Some ''good'') (Some ''b'') state0))
        = (files state0)(''/app/token-b.json'' \<mapsto> File (Json (Some grant1)))
   \<and> fst (createOAuth2ClientForUser env0 ''b''
            (snd (oauth2callback Part001 env0 (Some ''good'') (Some ''b'') state0)))
        = Inr ((newOAuth2 keys0)\<lparr>credentials := Some grant1\<rparr>)
   \<and> files (snd (oauth2callback Part001 env0 (Some ''good'') (Some ''b'') state0))
        (getTokenPathForUser (dirname env0) ''a'')
        = files state0 (getTokenPathForUser (dirname env0) ''a'')
   \<and> files state0 (getTokenPathForUser (dirname env0) ''a'') = Some (File (Json (Some grant0)))"
proof -
  let ?st' = "state0\<lparr>log := [ReadFile ''/app/token-b.json'', TokenExchange ''good'',
                       WriteFile ''/app/token-b.json''],
               files := (files state0)(''/app/token-b.json'' \<mapsto> File (Json (Some grant1)))\<rparr>"
  have pb: "path_join [dirname env0, ''token-'' @ ''b'' @ ''.json''] = ''/app/token-b.json''"
    using path_of_b by (simp add: getTokenPathForUser_def env0_def)
  have g: "getToken env0 ''good'' = Inr grant1" by (simp add: env0_def)
  from callback_persists_under_state [OF callback_good_b] obtain c s tokens k where
    c: "Some ''good'' = Some c" and s: "Some ''b'' = Some s" and t: "getToken env0 c = Inr tokens"
    and k: "clientKeys (registration env0) = Inr k"
    and l: "fst (createOAuth2ClientForUser env0 s ?st') = Inr ((newOAuth2 k)\<lparr>credentials := Some tokens\<rparr>)"
    and o: "CHR ''/'' \<notin> set s \<longrightarrow>
              (\<forall>u. CHR ''/'' \<notin> set u \<and> u \<noteq> s \<longrightarrow>
                 getTokenPathForUser (dirname env0) u \<noteq> path_join [dirname env0, ''token-'' @ s @ ''.json'']
                 \<and> files ?st' (getTokenPathForUser (dirname env0) u)
                     = files state0 (getTokenPathForUser (dirname env0) u))"
    by blast
  from c s have cs: "c = ''good''" "s = ''b''" by simp_all
  from t g cs have tk: "tokens = grant1" by simp
  from k clientKeys_env0 have kk: "k = keys0" by simp
  from o cs have a: "files ?st' (getTokenPathForUser (dirname env0) ''a'')
                     = files state0 (getTokenPathForUser (dirname env0) ''a'')"
    by simp
  have f0: "files state0 (getTokenPathForUser (dirname env0) ''a'') = Some (File (Json (Some grant0)))"
    by (simp add: env0_def state0_def path_of_a)
  have l0: "log state0 = []" by (simp add: state0_def)
  show ?thesis
    unfolding callback_good_b using l a cs tk kk pb f0 l0 by simp
qed

subsection \<open>C1: grants of distinct users\<close>

text \<open>
  C1, as the claim states it, fails: \<open>path.join\<close> normalises the file name, so the
  identities \<open>a\<close> and \<open>x/../token-a\<close> are distinct and have the same token file, and a
  callback for the second replaces the grant that is loaded for the first.
\<close>

theorem token_path_collision:
  "''a'' \<noteq> ''x/../token-a''
   \<and> getTokenPathForUser (dirname env0) ''a'' = getTokenPathForUser (dirname env0) ''x/../token-a''
   \<and> fst (createOAuth2ClientForUser env0 ''a'' state0) = Inr client0
   \<and> fst (createOAuth2ClientForUser env0 ''a''
            (snd (oauth2callback Part001 env0 (Some ''good'') (Some ''x/../token-a'') state0)))
       = Inr (client0\<lparr>credentials := Some grant1\<rparr>)
   \<and> client0 \<noteq> client0\<lparr>credentials := Some grant1\<rparr>"
proof -
  have "fst (createOAuth2ClientForUser env0 ''a''
            (snd (oauth2callback Part001 env0 (Some ''good'') (Some ''x/../token-a'') state0)))
       = Inr (client0\<lparr>credentials := Some grant1\<rparr>)"
    unfolding callback_good_dotdot
    by (simp add: createOAuth2ClientForUser_def Let_def env0_def state0_def path_of_a clientKeys_def
        registration0_def readFile_def readEntry_def client0_def)
  moreover have "client0 \<noteq> client0\<lparr>credentials := Some grant1\<rparr>"
    by (simp add: client0_def newOAuth2_def grant0_def grant1_def
        OAuth2Client.iffs Credentials.iffs)
  moreover have "getTokenPathForUser (dirname env0) ''a''
      = getTokenPathForUser (dirname env0) ''x/../token-a''"
    by (simp add: env0_def path_of_a path_of_dotdot)
  ultimately show ?thesis using load_a_state0 by simp
qed

text \<open>
  C1, amended. For every two distinct identities that contain no slash, the token
  paths differ, and a callback for the second (whatever its code, whether it succeeds or
  not) leaves the token file of the first unchanged: the client restored for the first
  identity after the callback is the one restored before it.
\<close>

theorem grant_isolation_separator_free:
  assumes "CHR ''/'' \<notin> set u1" "CHR ''/'' \<notin> set u2" "u1 \<noteq> u2"
  shows "getTokenPathForUser (dirname E) u1 \<noteq> getTokenPathForUser (dirname E) u2
       \<and> files (snd (oauth2callback v E code (Some u2) st)) (getTokenPathForUser (dirname E) u1)
           = files st (getTokenPathForUser (dirname E) u1)
       \<and> fst (createOAuth2ClientForUser E u1 (snd (oauth2callback v E code (Some u2) st)))
           = fst (createOAuth2ClientForUser E u1 st)"
proof -
  have ne: "getTokenPathForUser (dirname E) u1 \<noteq> getTokenPathForUser (dirname E) u2"
    using assms by (rule getTokenPathForUser_inj)
  then have same: "files (snd (oauth2callback v E code (Some u2) st)) (getTokenPathForUser (dirname E) u1)
           = files st (getTokenPathForUser (dirname E) u1)"
    by (rule oauth2callback_files_elsewhere)
  from same have "fst (createOAuth2ClientForUser E u1 (snd (oauth2callback v E code (Some u2) st)))
           = fst (createOAuth2ClientForUser E u1 st)"
    by (rule createOAuth2ClientForUser_cong)
  with ne same show ?thesis by simp
qed

theorem grant_isolation_separator_free_witness:
  "CHR ''/'' \<notin> set ''a'' \<and> CHR ''/'' \<notin> set ''b'' \<and> ''a'' \<noteq> ''b''
   \<and> getTokenPathForUser (dirname env0) ''a'' \<noteq> getTokenPathForUser (dirname env0) ''b''
   \<and> files (snd (oauth2callback Part001 env0 (Some ''good'') (Some ''b'') state0))
        ''/app/token-b.json'' = Some (File (Json (Some grant1)))
   \<and> fst (createOAuth2ClientForUser env0 ''a''
            (snd (oauth2callback Part001 env0 (Some ''good'') (Some ''b'') state0)))
       = Inr client0"
proof -
  have h: "CHR ''/'' \<notin> set ''a''" "CHR ''/'' \<notin> set ''b''" "''a'' \<noteq> ''b''" by simp_all
  from grant_isolation_separator_free [OF h, of env0 Part001 "Some ''good''" state0]
  have "getTokenPathForUser (dirname env0) ''a'' \<noteq> getTokenPathForUser (dirname env0) ''b''"
    and "fst (createOAuth2ClientForUser env0 ''a''
            (snd (oauth2callback Part001 env0 (Some ''good'') (Some ''b'') state0)))
       = fst (createOAuth2ClientForUser env0 ''a'' state0)"
    by simp_all
  moreover have "files (snd (oauth2callback Part001 env0 (Some ''good'') (Some ''b'') state0))
        ''/app/token-b.json'' = Some (File (Json (Some grant1)))"
    unfolding callback_good_b by simp
  ultimately show ?thesis using load_a_state0 by simp
qed

subsection \<open>C4: the gate of \<open>/qr\<close>\<close>

text \<open>
  C4. A client passes the gate exactly when it carries a non-empty refresh token,
  and \<open>/qr/u\<close> answers 400 with the not-authenticated message exactly when the client
  restored for \<open>u\<close> does not pass. That message names the user in double quotes and
  tells the caller to visit \<open>/authenticate/u\<close> first. In particular, for an identity
  whose token file does not exist (the registration being in place), the restored client
  is the new, empty one, it does not pass, and \<open>/qr/u\<close> answers 400 with that message,
  having only read the token file: the mailbox is not called.
\<close>

theorem unauthorized_gate:
  "(isAuthorized c \<longleftrightarrow>
      (\<exists>cr t. credentials c = Some cr \<and> refresh_token cr = Some t \<and> t \<noteq> []))
   \<and> notAuthenticatedMessage u
        = ''User '' @ [CHR 0x22] @ u @ [CHR 0x22]
            @ '' is not authenticated. Please visit /authenticate/'' @ u @ '' first.''
   \<and> (createOAuth2ClientForUser E u st = (Inr c, st1) \<longrightarrow>
        (fst (qr E u st) = Response 400 (Message (notAuthenticatedMessage u)) \<longleftrightarrow> \<not> isAuthorized c))
   \<and> (clientKeys (registration E) = Inr k \<and> files st (getTokenPathForUser (dirname E) u) = None \<longrightarrow>
        fst (createOAuth2ClientForUser E u st) = Inr (newOAuth2 k)
        \<and> \<not> isAuthorized (newOAuth2 k)
        \<and> qr E u st =
            (Response 400
               (Message (''User '' @ [CHR 0x22] @ u @ [CHR 0x22]
                           @ '' is not authenticated. Please visit /authenticate/'' @ u @ '' first.'')),
             st\<lparr>log := log st @ [ReadFile (getTokenPathForUser (dirname E) u)]\<rparr>))"
proof (intro conjI impI)
  show "isAuthorized c \<longleftrightarrow>
      (\<exists>cr t. credentials c = Some cr \<and> refresh_token cr = Some t \<and> t \<noteq> [])"
    by (auto simp: isAuthorized_def truthy_def split: option.splits)
next
  show "notAuthenticatedMessage u
        = ''User '' @ [CHR 0x22] @ u @ [CHR 0x22]
            @ '' is not authenticated. Please visit /authenticate/'' @ u @ '' first.''"
    by (simp add: notAuthenticatedMessage_def)
next
  assume "createOAuth2ClientForUser E u st = (Inr c, st1)"
  then show "fst (qr E u st) = Response 400 (Message (notAuthenticatedMessage u)) \<longleftrightarrow> \<not> isAuthorized c"
    by (auto simp: qr_def split: prod.splits sum.splits)
next
  assume a: "clientKeys (registration E) = Inr k \<and> files st (getTokenPathForUser (dirname E) u) = None"
  then show "fst (createOAuth2ClientForUser E u st) = Inr (newOAuth2 k)"
    by (simp add: createOAuth2ClientForUser_def readFile_def readEntry_def Let_def)
  show "\<not> isAuthorized (newOAuth2 k)"
    by (simp add: isAuthorized_def newOAuth2_def emptyCredentials_def truthy_def)
  from a show "qr E u st =
            (Response 400
               (Message (''User '' @ [CHR 0x22] @ u @ [CHR 0x22]
                           @ '' is not authenticated. Please visit /authenticate/'' @ u @ '' first.'')),
             st\<lparr>log := log st @ [ReadFile (getTokenPathForUser (dirname E) u)]\<rparr>)"
    by (simp add: qr_def createOAuth2ClientForUser_def readFile_def readEntry_def Let_def
        isAuthorized_def newOAuth2_def emptyCredentials_def truthy_def notAuthenticatedMessage_def)
qed

theorem unauthorized_gate_witness:
  "clientKeys (registration env0) = Inr keys0
   \<and> files state0 (getTokenPathForUser (dirname env0) ''zed'') = None
   \<and> qr env0 ''zed'' state0
       = (Response 400
            (Message ''User \"zed\" is not authenticated. Please visit /authenticate/zed first.''),
          state0\<lparr>log := [ReadFile ''/app/token-zed.json'']\<rparr>)
   \<and> isAuthorized client0
   \<and> fst (qr env0 ''a'' state0)
       \<noteq> Response 400
            (Message ''User \"a\" is not authenticated. Please visit /authenticate/a first.'')"
proof -
  have f: "files state0 (getTokenPathForUser (dirname env0) ''zed'') = None"
    by (simp add: env0_def state0_def path_of_zed)
  have l: "createOAuth2ClientForUser env0 ''a'' state0
             = (Inr client0, snd (createOAuth2ClientForUser env0 ''a'' state0))"
    using load_a_state0 by (metis prod.collapse)
  have g: "credentials client0 = Some grant0 \<and> refresh_token grant0 = Some ''rt-0'' \<and> ''rt-0'' \<noteq> []"
    by (simp add: client0_def grant0_def)
  note t = unauthorized_gate
             [of client0 "''a''" env0 state0 "snd (createOAuth2ClientForUser env0 ''a'' state0)"]
  from t l g
  have a: "isAuthorized client0"
    and b: "fst (qr env0 ''a'' state0) \<noteq> Response 400 (Message (notAuthenticatedMessage ''a''))"
    by blast+
  from t have m: "notAuthenticatedMessage ''a''
                    = ''User \"a\" is not authenticated. Please visit /authenticate/a first.''"
    by simp
  from unauthorized_gate [of _ "''zed''" env0 state0 _ keys0] clientKeys_env0 f
  have "qr env0 ''zed'' state0
       = (Response 400
            (Message (''User '' @ [CHR 0x22] @ ''zed'' @ [CHR 0x22]
                        @ '' is not authenticated. Please visit /authenticate/'' @ ''zed'' @ '' first.'')),
          state0\<lparr>log := log state0 @ [ReadFile (getTokenPathForUser (dirname env0) ''zed'')]\<rparr>)"
    by blast
  then have "qr env0 ''zed'' state0
       = (Response 400
            (Message ''User \"zed\" is not authenticated. Please visit /authenticate/zed first.''),
          state0\<lparr>log := [ReadFile ''/app/token-zed.json'']\<rparr>)"
    by (simp add: env0_def path_of_zed state0_def)
  with a b m f clientKeys_env0 show ?thesis by simp
qed

subsection \<open>C6: what loading a grant does on failure\<close>

text \<open>
  C6, as the claim states it, fails in its second half: a token file that exists but
  cannot be read, and one whose text is not JSON, give the same client as no file at
  all; no error reaches the caller.
\<close>

theorem load_swallows_unreadable:
  "readFile (files state_unreadable) (getTokenPathForUser (dirname env0) ''a'') = Inl EACCES
   \<and> createOAuth2ClientForUser env0 ''a'' state_unreadable
       = (Inr (newOAuth2 keys0), state_unreadable\<lparr>log := [ReadFile ''/app/token-a.json'']\<rparr>)
   \<and> files state_corrupt (getTokenPathForUser (dirname env0) ''a'') = Some (File (NotJson ''{access_tok''))
   \<and> createOAuth2ClientForUser env0 ''a'' state_corrupt
       = (Inr (newOAuth2 keys0), state_corrupt\<lparr>log := [ReadFile ''/app/token-a.json'']\<rparr>)
   \<and> createOAuth2ClientForUser env0 ''a'' state_empty
       = (Inr (newOAuth2 keys0), state_empty\<lparr>log := [ReadFile ''/app/token-a.json'']\<rparr>)"
  by (simp add: createOAuth2ClientForUser_def Let_def env0_def state_unreadable_def
      state_corrupt_def state_empty_def path_of_a clientKeys_def registration0_def readFile_def
      readEntry_def)

text \<open>
  C6, amended. Loading never throws: with the registration in place,
  \<open>createOAuth2ClientForUser\<close> always returns a client. When the token file does not
  exist, and also when it exists but cannot be read or does not decode, that client is
  the new one with empty credentials, the same value in all three cases.
\<close>

theorem load_failures_are_absence:
  assumes "clientKeys (registration E) = Inr k"
  shows "(\<exists>c. fst (createOAuth2ClientForUser E u st) = Inr c) \<and>
         ((files st (getTokenPathForUser (dirname E) u) = None
           \<or> files st (getTokenPathForUser (dirname E) u) = Some Unreadable
           \<or> (\<exists>t. files st (getTokenPathForUser (dirname E) u) = Some (File (NotJson t))))
          \<longrightarrow> fst (createOAuth2ClientForUser E u st) = Inr (newOAuth2 k))"
  using assms
  by (auto simp: createOAuth2ClientForUser_def readFile_def readEntry_def Let_def split: sum.splits)

theorem load_failures_are_absence_witness:
  "clientKeys (registration env0) = Inr keys0
   \<and> files state_unreadable (getTokenPathForUser (dirname env0) ''a'') = Some Unreadable
   \<and> fst (createOAuth2ClientForUser env0 ''a'' state_unreadable) = Inr (newOAuth2 keys0)"
proof -
  have f: "files state_unreadable (getTokenPathForUser (dirname env0) ''a'') = Some Unreadable"
    by (simp add: env0_def state_unreadable_def path_of_a)
  from load_failures_are_absence [OF clientKeys_env0, of "''a''" state_unreadable] f
  have "fst (createOAuth2ClientForUser env0 ''a'' state_unreadable) = Inr (newOAuth2 keys0)"
    by blast
  with f clientKeys_env0 show ?thesis by simp
qed

subsection \<open>C7: startup\<close>

text \<open>
  C7. The claim is what \<open>part_001\<close> does (see \<open>startup_part001_listening\<close>).
  \<open>part_000\<close> does not: with \<open>credentials.json\<close> present and well-formed it still
  exits with status 1, because \<open>JSON.parse\<close> is given the promise of the read and not
  its text.
\<close>

theorem startup_part000_exits_on_valid_credentials:
  "startup Part000 ''/app'' [''/app/credentials.json'' \<mapsto> File (Json registration0)] = Exit 1
   \<and> startup Part001 ''/app'' [''/app/credentials.json'' \<mapsto> File (Json registration0)]
       = Listening registration0"
  by (simp add: startup_def readFile_def readEntry_def credentials_path_app)

subsection \<open>C9: the consent URL\<close>

text \<open>
  C9. With the registration in place, for every identity and every state of the
  store (authorized before or not), \<open>/authenticate/u\<close> redirects to a URL whose
  \<open>access_type\<close> is \<open>offline\<close>, whose \<open>prompt\<close> is \<open>consent\<close>, and whose only
  \<open>state\<close> parameter is exactly the identity.
\<close>

theorem consent_url_parameters:
  assumes "clientKeys (registration E) = Inr k"
  shows "\<exists>url st'. authenticate_handler E u st = (Redirect url, st') \<and>
           map_of (params url) ''access_type'' = Some ''offline'' \<and>
           map_of (params url) ''prompt'' = Some ''consent'' \<and>
           map_of (params url) ''state'' = Some u \<and>
           [p \<leftarrow> params url. fst p = ''state''] = [(''state'', u)]"
  using assms
  by (simp add: authenticate_handler_def createOAuth2ClientForUser_def Let_def generateAuthUrl_def
      split: sum.splits)

theorem consent_url_parameters_witness:
  "clientKeys (registration env0) = Inr keys0 \<and>
   (\<exists>url st'. authenticate_handler env0 ''a'' state0 = (Redirect url, st') \<and>
           map_of (params url) ''access_type'' = Some ''offline'' \<and>
           map_of (params url) ''prompt'' = Some ''consent'' \<and>
           map_of (params url) ''state'' = Some ''a'' \<and>
           [p \<leftarrow> params url. fst p = ''state''] = [(''state'', ''a'')])"
  using consent_url_parameters [OF clientKeys_env0, of "''a''" state0] clientKeys_env0 by simp

subsection \<open>C8: a message whose fetch fails is dropped\<close>

text \<open>
  C8, as the claim states it, fails: the date of a fetched message is converted
  inside the same \<open>try\<close> as the fetch. With a listing of three messages of which only
  the second fails to be fetched, and a first message whose \<open>Date\<close> header is not a
  date, the result holds one record, for the third message.
\<close>

theorem unparsable_date_dropped:
  "messages_list mailbox1 client0
     = Inr (Some [\<lparr>msg_id = ''m1''\<rparr>, \<lparr>msg_id = ''m2''\<rparr>, \<lparr>msg_id = ''m3''\<rparr>])
   \<and> messages_get mailbox1 client0 ''m1'' = Inr headers_bad_date
   \<and> messages_get mailbox1 client0 ''m2'' = Inl (ProviderError ''backend error'')
   \<and> messages_get mailbox1 client0 ''m3'' = Inr headers0
   \<and> getLatestEmails mailbox1 True client0 ''a'' state0 =
        (Inr [\<lparr> e_id = Uuid 0, e_date = ''2026-11-02T09:00:00.000Z'', e_place = ''shibuya-OOOO'',
                e_person = ''a'', e_mail = ''https://mail.google.com/mail/u/0/#inbox/m3'',
                e_QR_data = ''abcdefghijk0123456'', e_subject = Some ''visit'' \<rparr>],
         state0\<lparr>log := [ListMessages, GetMessage ''m1'', GetMessage ''m2'', GetMessage ''m3''],
                next_uuid := 1\<rparr>)"
  by (simp add: getLatestEmails_def fetchOne_def dateOf_def subjectOf_def mailLink_def Let_def
      mailbox1_def headers_bad_date_def headers0_def state0_def)

text \<open>
  C8, amended. \<open>getLatestEmails\<close> throws exactly when the listing call throws. For
  a listing of three messages of which the first and the third are fetched with a date
  that is absent or parses, and the second fails to be fetched, it returns exactly two
  records, for the first and the third in that order, carrying the next two identifiers
  of the supply, which differ; all three fetches were attempted.
\<close>

theorem middle_fetch_failure_dropped:
  "(\<forall>err. fst (getLatestEmails G ws auth u st) = Inl err \<longleftrightarrow> messages_list G auth = Inl err)
   \<and> (messages_list G auth = Inr (Some [m1, m2, m3])
        \<and> messages_get G auth (msg_id m1) = Inr h1 \<and> dateOf G h1 = Some d1
        \<and> messages_get G auth (msg_id m2) = Inl e2
        \<and> messages_get G auth (msg_id m3) = Inr h3 \<and> dateOf G h3 = Some d3
      \<longrightarrow>
        getLatestEmails G ws auth u st =
          (Inr [\<lparr> e_id = Uuid (next_uuid st), e_date = d1, e_place = ''shibuya-OOOO'',
                  e_person = u, e_mail = mailLink m1, e_QR_data = ''abcdefghijk0123456'',
                  e_subject = (if ws then Some (subjectOf h1) else None) \<rparr>,
                \<lparr> e_id = Uuid (Suc (next_uuid st)), e_date = d3, e_place = ''shibuya-OOOO'',
                  e_person = u, e_mail = mailLink m3, e_QR_data = ''abcdefghijk0123456'',
                  e_subject = (if ws then Some (subjectOf h3) else None) \<rparr>],
           st\<lparr>log := log st @ [ListMessages, GetMessage (msg_id m1), GetMessage (msg_id m2),
                                 GetMessage (msg_id m3)],
              next_uuid := Suc (Suc (next_uuid st))\<rparr>)
        \<and> Uuid (next_uuid st) \<noteq> Uuid (Suc (next_uuid st)))"
proof (intro conjI allI impI)
  fix err
  show "fst (getLatestEmails G ws auth u st) = Inl err \<longleftrightarrow> messages_list G auth = Inl err"
    by (rule getLatestEmails_throws_iff)
next
  assume "messages_list G auth = Inr (Some [m1, m2, m3])
        \<and> messages_get G auth (msg_id m1) = Inr h1 \<and> dateOf G h1 = Some d1
        \<and> messages_get G auth (msg_id m2) = Inl e2
        \<and> messages_get G auth (msg_id m3) = Inr h3 \<and> dateOf G h3 = Some d3"
  then show "getLatestEmails G ws auth u st =
          (Inr [\<lparr> e_id = Uuid (next_uuid st), e_date = d1, e_place = ''shibuya-OOOO'',
                  e_person = u, e_mail = mailLink m1, e_QR_data = ''abcdefghijk0123456'',
                  e_subject = (if ws then Some (subjectOf h1) else None) \<rparr>,
                \<lparr> e_id = Uuid (Suc (next_uuid st)), e_date = d3, e_place = ''shibuya-OOOO'',
                  e_person = u, e_mail = mailLink m3, e_QR_data = ''abcdefghijk0123456'',
                  e_subject = (if ws then Some (subjectOf h3) else None) \<rparr>],
           st\<lparr>log := log st @ [ListMessages, GetMessage (msg_id m1), GetMessage (msg_id m2),
                                 GetMessage (msg_id m3)],
              next_uuid := Suc (Suc (next_uuid st))\<rparr>)"
    by (intro getLatestEmails_three) simp_all
next
  show "Uuid (next_uuid st) \<noteq> Uuid (Suc (next_uuid st))" by simp
qed

theorem middle_fetch_failure_dropped_witness:
  "messages_list mailbox0 client0 = Inr (Some [\<lparr>msg_id = ''m1''\<rparr>, \<lparr>msg_id = ''m2''\<rparr>, \<lparr>msg_id = ''m3''\<rparr>])
   \<and> messages_get mailbox0 client0 ''m1'' = Inr headers0
   \<and> dateOf mailbox0 headers0 = Some ''2026-11-02T09:00:00.000Z''
   \<and> messages_get mailbox0 client0 ''m2'' = Inl (ProviderError ''backend error'')
   \<and> messages_get mailbox0 client0 ''m3'' = Inr headers0
   \<and> getLatestEmails mailbox0 True client0 ''a'' state0 =
        (Inr [\<lparr> e_id = Uuid 0, e_date = ''2026-11-02T09:00:00.000Z'', e_place = ''shibuya-OOOO'',
                e_person = ''a'', e_mail = ''https://mail.google.com/mail/u/0/#inbox/m1'',
                e_QR_data = ''abcdefghijk0123456'', e_subject = Some ''visit'' \<rparr>,
              \<lparr> e_id = Uuid 1, e_date = ''2026-11-02T09:00:00.000Z'', e_place = ''shibuya-OOOO'',
                e_person = ''a'', e_mail = ''https://mail.google.com/mail/u/0/#inbox/m3'',
                e_QR_data = ''abcdefghijk0123456'', e_subject = Some ''visit'' \<rparr>],
         state0\<lparr>log := [ListMessages, GetMessage ''m1'', GetMessage ''m2'', GetMessage ''m3''],
                next_uuid := 2\<rparr>)"
proof -
  have l: "messages_list mailbox0 client0
             = Inr (Some [\<lparr>msg_id = ''m1''\<rparr>, \<lparr>msg_id = ''m2''\<rparr>, \<lparr>msg_id = ''m3''\<rparr>])"
    by (simp add: mailbox0_def)
  have g1: "messages_get mailbox0 client0 (msg_id \<lparr>msg_id = ''m1''\<rparr>) = Inr headers0"
    by (simp add: mailbox0_def)
  have g2: "messages_get mailbox0 client0 (msg_id \<lparr>msg_id = ''m2''\<rparr>)
              = Inl (ProviderError ''backend error'')"
    by (simp add: mailbox0_def)
  have g3: "messages_get mailbox0 client0 (msg_id \<lparr>msg_id = ''m3''\<rparr>) = Inr headers0"
    by (simp add: mailbox0_def)
  have d: "dateOf mailbox0 headers0 = Some ''2026-11-02T09:00:00.000Z''"
    by (simp add: dateOf_def headers0_def mailbox0_def)
  have s: "subjectOf headers0 = ''visit''"
    by (simp add: subjectOf_def headers0_def)
  from middle_fetch_failure_dropped
         [of mailbox0 True client0 "''a''" state0 "\<lparr>msg_id = ''m1''\<rparr>" "\<lparr>msg_id = ''m2''\<rparr>"
             "\<lparr>msg_id = ''m3''\<rparr>" headers0 "''2026-11-02T09:00:00.000Z''"
             "ProviderError ''backend error''" headers0 "''2026-11-02T09:00:00.000Z''"]
       l g1 g2 g3 d
  have "getLatestEmails mailbox0 True client0 ''a'' state0 =
          (Inr [\<lparr> e_id = Uuid (next_uuid state0), e_date = ''2026-11-02T09:00:00.000Z'',
                  e_place = ''shibuya-OOOO'', e_person = ''a'',
                  e_mail = mailLink \<lparr>msg_id = ''m1''\<rparr>, e_QR_data = ''abcdefghijk0123456'',
                  e_subject = (if True then Some (subjectOf headers0) else None) \<rparr>,
                \<lparr> e_id = Uuid (Suc (next_uuid state0)), e_date = ''2026-11-02T09:00:00.000Z'',
                  e_place = ''shibuya-OOOO'', e_person = ''a'',
                  e_mail = mailLink \<lparr>msg_id = ''m3''\<rparr>, e_QR_data = ''abcdefghijk0123456'',
                  e_subject = (if True then Some (subjectOf headers0) else None) \<rparr>],
           state0\<lparr>log := log state0 @ [ListMessages, GetMessage (msg_id \<lparr>msg_id = ''m1''\<rparr>),
                                      GetMessage (msg_id \<lparr>msg_id = ''m2''\<rparr>),
                                      GetMessage (msg_id \<lparr>msg_id = ''m3''\<rparr>)],
              next_uuid := Suc (Suc (next_uuid state0))\<rparr>)"
    by blast
  then have "getLatestEmails mailbox0 True client0 ''a'' state0 =
        (Inr [\<lparr> e_id = Uuid 0, e_date = ''2026-11-02T09:00:00.000Z'', e_place = ''shibuya-OOOO'',
                e_person = ''a'', e_mail = ''https://mail.google.com/mail/u/0/#inbox/m1'',
                e_QR_data = ''abcdefghijk0123456'', e_subject = Some ''visit'' \<rparr>,
              \<lparr> e_id = Uuid 1, e_date = ''2026-11-02T09:00:00.000Z'', e_place = ''shibuya-OOOO'',
                e_person = ''a'', e_mail = ''https://mail.google.com/mail/u/0/#inbox/m3'',
                e_QR_data = ''abcdefghijk0123456'', e_subject = Some ''visit'' \<rparr>],
         state0\<lparr>log := [ListMessages, GetMessage ''m1'', GetMessage ''m2'', GetMessage ''m3''],
                next_uuid := 2\<rparr>)"
    by (simp add: s mailLink_def state0_def numeral_2_eq_2)
  with l g1 g2 g3 d show ?thesis by simp
qed

subsection \<open>C2: the single cache does not depend on the name\<close>



end
